theory Spec2Isabelle
  imports Complex_Main
begin

section \<open>The shopping cart of VibeCart: data model\<close>

text \<open>
  The cart lives in \<^verbatim>\<open>src/models/Cart.js\<close> (a Mongoose schema with four instance
  methods and a \<^verbatim>\<open>pre('save')\<close> hook) and in \<^verbatim>\<open>src/routes/cart.js\<close> (five Express handlers
  that load a cart, call one method and answer with JSON).
\<close>

subsection \<open>Object ids and the strings that name them\<close>

text \<open>
  An \<^verbatim>\<open>ObjectId\<close> is a 12-byte value. It is represented here by what its \<^verbatim>\<open>toString()\<close>
  returns: 24 hexadecimal digits, the letters in lower case. A request names an id by a
  string; the cast to \<^verbatim>\<open>ObjectId\<close> (in \<^verbatim>\<open>findById\<close>, and when an item is pushed) accepts
  24 hexadecimal digits in either case and refuses every other string. The methods of the
  cart do not cast: they compare the rendering of the stored id with the caller's string as
  it came.
\<close>

type_synonym objectId = string

definition is_hex :: "char \<Rightarrow> bool" where
  "is_hex ch \<longleftrightarrow> ch \<in> set ''0123456789abcdefABCDEF''"

definition lower_hex :: "char \<Rightarrow> char" where
  "lower_hex ch = (case map_of (zip ''ABCDEF'' ''abcdef'') ch of Some l \<Rightarrow> l | None \<Rightarrow> ch)"

definition castObjectId :: "string \<Rightarrow> objectId option" where
  "castObjectId s =
     (if length s = 24 \<and> list_all is_hex s then Some (map lower_hex s) else None)"

definition toString :: "objectId \<Rightarrow> string" where
  "toString oid = oid"

subsection \<open>Numbers and the values a request carries\<close>

text \<open>
  A \<^verbatim>\<open>Number\<close> is a finite number, an infinity or \<^verbatim>\<open>NaN\<close>. Finite numbers are taken as
  rationals: the rounding of IEEE doubles is outside this model. The operators are those the
  cart uses: \<^verbatim>\<open>a < b\<close>, \<^verbatim>\<open>a <= b\<close>, \<^verbatim>\<open>a + b\<close> on numbers and \<^verbatim>\<open>Math.min(a, b)\<close>.
\<close>

datatype jsNumber = Finite rat | PosInfinity | NegInfinity | NaN

fun js_less :: "jsNumber \<Rightarrow> jsNumber \<Rightarrow> bool" where
  "js_less NaN b = False"
| "js_less a NaN = False"
| "js_less (Finite a) (Finite b) = (a < b)"
| "js_less (Finite a) PosInfinity = True"
| "js_less (Finite a) NegInfinity = False"
| "js_less PosInfinity b = False"
| "js_less NegInfinity NegInfinity = False"
| "js_less NegInfinity b = True"

definition js_le :: "jsNumber \<Rightarrow> jsNumber \<Rightarrow> bool" where
  "js_le a b \<longleftrightarrow> a \<noteq> NaN \<and> b \<noteq> NaN \<and> \<not> js_less b a"

fun js_plus :: "jsNumber \<Rightarrow> jsNumber \<Rightarrow> jsNumber" where
  "js_plus NaN b = NaN"
| "js_plus a NaN = NaN"
| "js_plus (Finite a) (Finite b) = Finite (a + b)"
| "js_plus (Finite a) b = b"
| "js_plus a (Finite b) = a"
| "js_plus PosInfinity NegInfinity = NaN"
| "js_plus NegInfinity PosInfinity = NaN"
| "js_plus a b = a"

definition js_min :: "jsNumber \<Rightarrow> jsNumber \<Rightarrow> jsNumber" where
  "js_min a b = (if a = NaN \<or> b = NaN then NaN else if js_less a b then a else b)"

text \<open>
  The quantity of a request body is a JSON number or a JSON string; nothing in the routes
  checks which. (Other JSON values are not modelled.)
\<close>

datatype jsValue = JsNumber jsNumber | JsString string

text \<open>
  The conversions between strings and numbers belong to the JavaScript runtime and to
  Mongoose, not to the repository; the model takes them as parameters:
  \<^item> \<open>toNumber\<close>: the number a string stands for in a comparison or in \<^verbatim>\<open>Math.min\<close>;
  \<^item> \<open>castNumber\<close>: what is stored when a string is assigned to a \<^verbatim>\<open>Number\<close> path
    (\<open>NaN\<close> when the cast is refused);
  \<^item> \<open>numberToString\<close>: the rendering of a number when \<^verbatim>\<open>+\<close> meets a string.
\<close>

record runtime =
  toNumber :: "string \<Rightarrow> jsNumber"
  castNumber :: "string \<Rightarrow> jsNumber"
  numberToString :: "rat \<Rightarrow> string"

definition to_number :: "runtime \<Rightarrow> jsValue \<Rightarrow> jsNumber" where
  "to_number rt v = (case v of JsNumber n \<Rightarrow> n | JsString s \<Rightarrow> toNumber rt s)"

subsection \<open>Documents\<close>

text \<open>
  \<^verbatim>\<open>cartItemSchema\<close> (Cart.js, lines 3-21); the field \<^verbatim>\<open>product\<close> is \<open>product_id\<close> here.
  A stored quantity or price is a finite number: \<^verbatim>\<open>save()\<close> lets no other through.
\<close>

record cartItem =
  product_id :: objectId
  quantity :: rat
  price :: rat

text \<open>\<^verbatim>\<open>cartSchema\<close> (Cart.js, lines 23-41), without the timestamps.\<close>

record cart =
  user :: objectId
  items :: "cartItem list"
  totalItems :: rat
  totalPrice :: rat

text \<open>
  What the cart routes read of a catalog product (\<^verbatim>\<open>productSchema\<close>): its \<^verbatim>\<open>price\<close>
  (here \<open>product_price\<close>) and its \<^verbatim>\<open>stock\<close>.
\<close>

record productDoc =
  product_price :: rat
  stock :: rat

text \<open>
  What a call throws: the validation error of \<^verbatim>\<open>save()\<close>, the
  \<^verbatim>\<open>Error('Item not found in cart')\<close> of \<^verbatim>\<open>updateItemQuantity\<close>, or the cast error of
  \<^verbatim>\<open>findById\<close> on a string that is no id.
\<close>

datatype exn = ValidationError | ItemNotFound | CastError

text \<open>
  What a route answers when it does not answer with the cart. An exception is caught by the
  handler's \<^verbatim>\<open>catch\<close> and answered with status 500.
\<close>

datatype failure =
    Unauthenticated
  | ProductIdRequired
  | ProductNotFound
  | InsufficientStock rat
  | ValidQuantityRequired
  | CartNotFound
  | ServerError exn


type_synonym carts = "objectId \<rightharpoonup> cart"
type_synonym catalog = "objectId \<rightharpoonup> productDoc"

section \<open>The model: validation, the save hook and the four methods\<close>

text \<open>
  The validators the schema declares for an item: \<^verbatim>\<open>quantity\<close> has
  \<^verbatim>\<open>min: [1, 'Quantity must be at least 1']\<close> and \<^verbatim>\<open>max: [100, 'Quantity cannot exceed 100']\<close>,
  \<^verbatim>\<open>price\<close> has \<^verbatim>\<open>min: [0, 'Price cannot be negative']\<close>.
\<close>

definition valid_item :: "cartItem \<Rightarrow> bool" where
  "valid_item item \<longleftrightarrow> 1 \<le> quantity item \<and> quantity item \<le> 100 \<and> 0 \<le> price item"

definition validate :: "cart \<Rightarrow> bool" where
  "validate this \<longleftrightarrow> list_all valid_item (items this)"

text \<open>\<^verbatim>\<open>cartSchema.pre('save')\<close> (Cart.js, lines 44-48): the two \<^verbatim>\<open>reduce\<close> calls.\<close>

definition pre_save :: "cart \<Rightarrow> cart" where
  "pre_save this =
     this\<lparr>totalItems := foldl (\<lambda>sum item. sum + quantity item) 0 (items this),
          totalPrice := foldl (\<lambda>sum item. sum + price item * quantity item) 0 (items this)\<rparr>"

text \<open>
  \<^verbatim>\<open>this.save()\<close>: the document is validated against the schema, then the hook runs and the
  document is what gets stored. A document that fails validation is rejected and nothing is
  stored.
\<close>

definition save :: "cart \<Rightarrow> exn + cart" where
  "save this = (if validate this then Inr (pre_save this) else Inl ValidationError)"

text \<open>
  \<^verbatim>\<open>find\<close> returns the first matching element of the array itself, and the methods assign to
  its \<^verbatim>\<open>quantity\<close>: the first match is changed in place.
\<close>

fun modify_first :: "(cartItem \<Rightarrow> bool) \<Rightarrow> (cartItem \<Rightarrow> cartItem) \<Rightarrow> cartItem list \<Rightarrow> cartItem list" where
  "modify_first P f [] = []"
| "modify_first P f (item # rest) = (if P item then f item # rest else item # modify_first P f rest)"

text \<open>\<^verbatim>\<open>new Cart({ user, items: [] })\<close>: the totals take the schema's default 0.\<close>

definition new_cart :: "objectId \<Rightarrow> cart" where
  "new_cart u = \<lparr>user = u, items = [], totalItems = 0, totalPrice = 0\<rparr>"

text \<open>
  \<^verbatim>\<open>addItem\<close> (Cart.js, lines 51-62). On the merge path \<^verbatim>\<open>+=\<close> adds a number and appends a
  string; the appended string is cast back when it is assigned to \<^verbatim>\<open>quantity\<close>. On the other
  path the pushed object is cast field by field. A quantity that is not a finite number never
  passes \<^verbatim>\<open>save()\<close>: \<open>NaN\<close> is a refused cast, the infinities fail \<^verbatim>\<open>min\<close> or \<^verbatim>\<open>max\<close>; so does
  a product string that is no id.
\<close>

definition addItem :: "runtime \<Rightarrow> cart \<Rightarrow> string \<Rightarrow> jsValue \<Rightarrow> rat \<Rightarrow> exn + cart" where
  "addItem rt this productId qty pr =
     (case find (\<lambda>item. toString (product_id item) = productId) (items this) of
        Some existingItem \<Rightarrow>
          (let added =
                 (case qty of
                    JsNumber n \<Rightarrow> js_plus (Finite (quantity existingItem)) n
                  | JsString s \<Rightarrow>
                      castNumber rt (numberToString rt (quantity existingItem) @ s));
               clamped = (if js_less (Finite 100) added then Finite 100 else added)
           in case clamped of
                Finite q \<Rightarrow>
                  save (this\<lparr>items :=
                    modify_first (\<lambda>item. toString (product_id item) = productId)
                      (\<lambda>item. item\<lparr>quantity := q\<rparr>) (items this)\<rparr>)
              | _ \<Rightarrow> Inl ValidationError)
      | None \<Rightarrow>
          (case (castObjectId productId,
                 case qty of JsNumber n \<Rightarrow> n | JsString s \<Rightarrow> castNumber rt s) of
             (Some oid, Finite q) \<Rightarrow>
               save (this\<lparr>items :=
                 items this @ [\<lparr>product_id = oid, quantity = q, price = pr\<rparr>]\<rparr>)
           | _ \<Rightarrow> Inl ValidationError))"

text \<open>\<^verbatim>\<open>updateItemQuantity\<close> (Cart.js, lines 65-78).\<close>

definition updateItemQuantity :: "runtime \<Rightarrow> cart \<Rightarrow> string \<Rightarrow> jsValue \<Rightarrow> exn + cart" where
  "updateItemQuantity rt this productId qty =
     (case find (\<lambda>item. toString (product_id item) = productId) (items this) of
        Some item \<Rightarrow>
          (if js_le (to_number rt qty) (Finite 0)
           then save (this\<lparr>items :=
                  filter (\<lambda>item. toString (product_id item) \<noteq> productId) (items this)\<rparr>)
           else
             (case js_min (to_number rt qty) (Finite 100) of
                Finite q \<Rightarrow>
                  save (this\<lparr>items :=
                    modify_first (\<lambda>item. toString (product_id item) = productId)
                      (\<lambda>item. item\<lparr>quantity := q\<rparr>) (items this)\<rparr>)
              | _ \<Rightarrow> Inl ValidationError))
      | None \<Rightarrow> Inl ItemNotFound)"

text \<open>\<^verbatim>\<open>removeItem\<close> (Cart.js, lines 81-84).\<close>

definition removeItem :: "cart \<Rightarrow> string \<Rightarrow> exn + cart" where
  "removeItem this productId =
     save (this\<lparr>items :=
       filter (\<lambda>item. toString (product_id item) \<noteq> productId) (items this)\<rparr>)"

text \<open>\<^verbatim>\<open>clearCart\<close> (Cart.js, lines 87-90).\<close>

definition clearCart :: "cart \<Rightarrow> exn + cart" where
  "clearCart this = save (this\<lparr>items := []\<rparr>)"

section \<open>The routes\<close>

text \<open>
  Each handler takes the stored carts (one per user: the schema's \<^verbatim>\<open>unique\<close> index on
  \<^verbatim>\<open>user\<close>) and returns its answer with the carts as stored afterwards. The user is the id the
  authentication put on the request. The catalog is only read, through \<^verbatim>\<open>findById\<close>, which
  casts the request's string first. The \<^verbatim>\<open>populate\<close> step replaces each product reference by
  the product document in the answer and changes nothing stored; the answer here is the cart
  as stored.
\<close>


text \<open>
  \<^verbatim>\<open>POST /api/cart/add\<close> (cart.js, lines 46-100). The body's \<^verbatim>\<open>productId\<close> may be missing
  or empty, and its \<^verbatim>\<open>quantity\<close> defaults to 1. The string of the body, not the id it was
  cast to, is what \<^verbatim>\<open>addItem\<close> receives.
\<close>

definition addToCart ::
  "runtime \<Rightarrow> catalog \<Rightarrow> carts \<Rightarrow> objectId \<Rightarrow> string option \<Rightarrow> jsValue option
     \<Rightarrow> (failure + cart) \<times> carts" where
  "addToCart rt cat cs u body_productId body_quantity =
     (let qty = (case body_quantity of None \<Rightarrow> JsNumber (Finite 1) | Some v \<Rightarrow> v) in
      case body_productId of
        None \<Rightarrow> (Inl ProductIdRequired, cs)
      | Some productId \<Rightarrow>
          if productId = [] then (Inl ProductIdRequired, cs)
          else
            (case castObjectId productId of
               None \<Rightarrow> (Inl (ServerError CastError), cs)
             | Some oid \<Rightarrow>
                 (case cat oid of
                    None \<Rightarrow> (Inl ProductNotFound, cs)
                  | Some product \<Rightarrow>
                      if js_less (Finite (stock product)) (to_number rt qty)
                      then (Inl (InsufficientStock (stock product)), cs)
                      else
                        (case addItem rt (case cs u of None \<Rightarrow> new_cart u | Some c \<Rightarrow> c)
                                productId qty (product_price product) of
                           Inl e \<Rightarrow> (Inl (ServerError e), cs)
                         | Inr c' \<Rightarrow> (Inr c', cs(u \<mapsto> c'))))))"

text \<open>\<^verbatim>\<open>PUT /api/cart/update/:productId\<close> (cart.js, lines 105-160).\<close>

definition updateQuantity ::
  "runtime \<Rightarrow> catalog \<Rightarrow> carts \<Rightarrow> objectId \<Rightarrow> string \<Rightarrow> jsValue option
     \<Rightarrow> (failure + cart) \<times> carts" where
  "updateQuantity rt cat cs u productId body_quantity =
     (case body_quantity of
        None \<Rightarrow> (Inl ValidQuantityRequired, cs)
      | Some qty \<Rightarrow>
          if js_less (to_number rt qty) (Finite 0) then (Inl ValidQuantityRequired, cs)
          else
            (case castObjectId productId of
               None \<Rightarrow> (Inl (ServerError CastError), cs)
             | Some oid \<Rightarrow>
                 (case cat oid of
                    None \<Rightarrow> (Inl ProductNotFound, cs)
                  | Some product \<Rightarrow>
                      if js_less (Finite (stock product)) (to_number rt qty)
                      then (Inl (InsufficientStock (stock product)), cs)
                      else
                        (case cs u of
                           None \<Rightarrow> (Inl CartNotFound, cs)
                         | Some c \<Rightarrow>
                             (case updateItemQuantity rt c productId qty of
                                Inl e \<Rightarrow> (Inl (ServerError e), cs)
                              | Inr c' \<Rightarrow> (Inr c', cs(u \<mapsto> c')))))))"

text \<open>\<^verbatim>\<open>DELETE /api/cart/remove/:productId\<close> (cart.js, lines 165-194).\<close>

definition removeFromCart :: "carts \<Rightarrow> objectId \<Rightarrow> string \<Rightarrow> (failure + cart) \<times> carts" where
  "removeFromCart cs u productId =
     (case cs u of
        None \<Rightarrow> (Inl CartNotFound, cs)
      | Some c \<Rightarrow>
          (case removeItem c productId of
             Inl e \<Rightarrow> (Inl (ServerError e), cs)
           | Inr c' \<Rightarrow> (Inr c', cs(u \<mapsto> c'))))"


section \<open>Reachable carts\<close>

text \<open>
  The carts the code can store: a new empty cart, and what a method returns after a
  successful save on a cart that was itself stored, whatever strings and values it was
  called with.
\<close>

inductive reachable :: "runtime \<Rightarrow> cart \<Rightarrow> bool" for rt :: runtime where
  created: "reachable rt (new_cart u)"
| added: "reachable rt c \<Longrightarrow> addItem rt c p v pr = Inr c' \<Longrightarrow> reachable rt c'"
| updated: "reachable rt c \<Longrightarrow> updateItemQuantity rt c p v = Inr c' \<Longrightarrow> reachable rt c'"
| removed: "reachable rt c \<Longrightarrow> removeItem c p = Inr c' \<Longrightarrow> reachable rt c'"
| cleared: "reachable rt c \<Longrightarrow> clearCart c = Inr c' \<Longrightarrow> reachable rt c'"

text \<open>The totals as the data model defines them: sums over the items.\<close>

definition totals_ok :: "cart \<Rightarrow> bool" where
  "totals_ok c \<longleftrightarrow>
     totalItems c = (\<Sum>item\<leftarrow>items c. quantity item) \<and>
     totalPrice c = (\<Sum>item\<leftarrow>items c. quantity item * price item)"

text \<open>
  The examples below use user 1 and the products a and b, written as ids; \<open>product_A\<close> is
  product a spelled in upper case. Their requests carry numbers, so the conversions of the
  runtime are never consulted; \<open>any_runtime\<close> stands in for them.
\<close>

abbreviation user_1 :: objectId where "user_1 \<equiv> ''000000000000000000000001''"
abbreviation product_a :: objectId where "product_a \<equiv> ''00000000000000000000000a''"
abbreviation product_b :: objectId where "product_b \<equiv> ''00000000000000000000000b''"
abbreviation product_A :: string where "product_A \<equiv> ''00000000000000000000000A''"

abbreviation any_runtime :: runtime where
  "any_runtime \<equiv> \<lparr>toNumber = (\<lambda>s. NaN), castNumber = (\<lambda>s. NaN), numberToString = (\<lambda>n. [])\<rparr>"

section \<open>Properties of the save hook\<close>

lemma foldl_plus_sum_list:
  fixes f :: "'a \<Rightarrow> 'b::comm_monoid_add"
  shows "foldl (\<lambda>sum item. sum + f item) a xs = a + sum_list (map f xs)"
  by (induction xs arbitrary: a) (simp_all add: add.assoc)

lemma pre_save_totals: "totals_ok (pre_save c)"
  by (simp add: totals_ok_def pre_save_def foldl_plus_sum_list mult.commute)

lemma pre_save_items [simp]: "items (pre_save c) = items c"
  by (simp add: pre_save_def)

lemma pre_save_user [simp]: "user (pre_save c) = user c"
  by (simp add: pre_save_def)

lemma save_Inr_iff: "save c = Inr c' \<longleftrightarrow> validate c \<and> c' = pre_save c"
  by (auto simp: save_def)

lemma pre_save_fixpoint: "totals_ok c \<Longrightarrow> pre_save c = c"
  by (simp add: totals_ok_def pre_save_def foldl_plus_sum_list mult.commute)

lemma totals_ok_new_cart: "totals_ok (new_cart u)"
  by (simp add: totals_ok_def new_cart_def)

lemma validate_new_cart: "validate (new_cart u)"
  by (simp add: validate_def new_cart_def)

lemma save_saved: "save c = Inr c' \<Longrightarrow> totals_ok c' \<and> validate c'"
  by (auto simp: save_Inr_iff pre_save_totals validate_def)

text \<open>Every method ends in \<^verbatim>\<open>save()\<close>: what it returns is valid and has fresh totals.\<close>

lemma addItem_saved: "addItem rt c p v pr = Inr c' \<Longrightarrow> totals_ok c' \<and> validate c'"
  by (auto simp: addItem_def Let_def dest: save_saved
      split: option.splits jsNumber.splits if_splits)

lemma updateItemQuantity_saved:
  "updateItemQuantity rt c p v = Inr c' \<Longrightarrow> totals_ok c' \<and> validate c'"
  by (auto simp: updateItemQuantity_def dest: save_saved
      split: option.splits jsNumber.splits if_splits)

lemma removeItem_saved: "removeItem c p = Inr c' \<Longrightarrow> totals_ok c' \<and> validate c'"
  by (auto simp: removeItem_def dest: save_saved)

lemma clearCart_saved: "clearCart c = Inr c' \<Longrightarrow> totals_ok c' \<and> validate c'"
  by (auto simp: clearCart_def dest: save_saved)

lemma reachable_saved: "reachable rt c \<Longrightarrow> totals_ok c \<and> validate c"
proof (induction rule: reachable.induct)
  case (created u)
  show ?case by (simp add: totals_ok_new_cart validate_new_cart)
next
  case (added c p v pr c')
  then show ?case using addItem_saved by blast
next
  case (updated c p v c')
  then show ?case using updateItemQuantity_saved by blast
next
  case (removed c p c')
  then show ?case using removeItem_saved by blast
next
  case (cleared c c')
  then show ?case using clearCart_saved by blast
qed

section \<open>Properties of the list operations\<close>

lemma find_None_rendering:
  "find (\<lambda>item. toString (product_id item) = p) xs = None
     \<longleftrightarrow> (\<forall>item\<in>set xs. toString (product_id item) \<noteq> p)"
  by (auto simp: find_None_iff)

lemma find_Some_P: "find P xs = Some e \<Longrightarrow> P e \<and> e \<in> set xs"
  by (induction xs) (auto split: if_splits)

lemma find_append_hit:
  "\<forall>x\<in>set before. \<not> P x \<Longrightarrow> P e \<Longrightarrow> find P (before @ e # after) = Some e"
  by (induction before) auto

lemma filter_absent:
  "\<forall>item\<in>set xs. toString (product_id item) \<noteq> p \<Longrightarrow>
     filter (\<lambda>item. toString (product_id item) \<noteq> p) xs = xs"
  by (induction xs) auto

text \<open>Assigning to the item that \<^verbatim>\<open>find\<close> returned changes that element and no other.\<close>

lemma modify_first_split:
  "find P xs = Some e \<Longrightarrow>
     \<exists>before after. xs = before @ e # after \<and> (\<forall>x\<in>set before. \<not> P x) \<and>
        modify_first P f xs = before @ f e # after"
proof (induction xs)
  case Nil
  then show ?case by simp
next
  case (Cons x xs)
  show ?case
  proof (cases "P x")
    case True
    with Cons.prems have "x = e" by simp
    with True have "x # xs = [] @ e # xs \<and> (\<forall>y\<in>set []. \<not> P y) \<and>
        modify_first P f (x # xs) = [] @ f e # xs" by simp
    then show ?thesis by blast
  next
    case False
    with Cons.prems have "find P xs = Some e" by simp
    from Cons.IH [OF this] obtain before after where
      s: "xs = before @ e # after" "\<forall>y\<in>set before. \<not> P y"
         "modify_first P f xs = before @ f e # after" by blast
    with False have "x # xs = (x # before) @ e # after \<and> (\<forall>y\<in>set (x # before). \<not> P y) \<and>
        modify_first P f (x # xs) = (x # before) @ f e # after" by simp
    then show ?thesis by blast
  qed
qed

section \<open>Properties of validation and of the cast\<close>

lemma validate_replace:
  "validate c \<Longrightarrow> items c = before @ e # after \<Longrightarrow>
     validate (c\<lparr>items := before @ e' # after\<rparr>) \<longleftrightarrow> valid_item e'"
  by (auto simp: validate_def)

lemma validate_filter: "validate c \<Longrightarrow> validate (c\<lparr>items := filter P (items c)\<rparr>)"
  by (auto simp: validate_def list_all_iff)

lemma validate_member: "validate c \<Longrightarrow> e \<in> set (items c) \<Longrightarrow> valid_item e"
  by (auto simp: validate_def list_all_iff)

lemma valid_item_quantity:
  "valid_item e \<Longrightarrow> valid_item (e\<lparr>quantity := k\<rparr>) \<longleftrightarrow> 1 \<le> k \<and> k \<le> 100"
  by (auto simp: valid_item_def)

lemma castObjectId_nonempty: "castObjectId s = Some p \<Longrightarrow> s \<noteq> []"
  by (auto simp: castObjectId_def split: if_splits)

section \<open>The merge path of addItem\<close>

text \<open>With a finite number the merge assigns the clamped sum.\<close>

lemma addItem_merge:
  assumes "find (\<lambda>item. toString (product_id item) = p) (items c) = Some e"
  shows "\<exists>before after. items c = before @ e # after \<and>
           (\<forall>item\<in>set before. toString (product_id item) \<noteq> p) \<and>
           addItem rt c p (JsNumber (Finite n)) pr =
             save (c\<lparr>items := before @ e\<lparr>quantity := min (quantity e + n) 100\<rparr> # after\<rparr>)"
proof -
  from modify_first_split [OF assms, of "\<lambda>item. item\<lparr>quantity := min (quantity e + n) 100\<rparr>"]
  obtain before after where
    s: "items c = before @ e # after" "\<forall>x\<in>set before. toString (product_id x) \<noteq> p"
       "modify_first (\<lambda>item. toString (product_id item) = p)
          (\<lambda>item. item\<lparr>quantity := min (quantity e + n) 100\<rparr>) (items c)
        = before @ e\<lparr>quantity := min (quantity e + n) 100\<rparr> # after"
    by blast
  from assms have "addItem rt c p (JsNumber (Finite n)) pr =
      save (c\<lparr>items := modify_first (\<lambda>item. toString (product_id item) = p)
          (\<lambda>item. item\<lparr>quantity := min (quantity e + n) 100\<rparr>) (items c)\<rparr>)"
    by (auto simp: addItem_def min_def)
  with s(3) have "addItem rt c p (JsNumber (Finite n)) pr =
      save (c\<lparr>items := before @ e\<lparr>quantity := min (quantity e + n) 100\<rparr> # after\<rparr>)"
    by simp
  with s(1,2) show ?thesis by blast
qed

text \<open>
  On a cart that passes validation the merge is stored exactly when the new quantity is at
  least 1: the upper bound is met by the clamp, the lower bound only by the validator.
\<close>

lemma addItem_merge_result:
  assumes v: "validate c"
    and f: "find (\<lambda>item. toString (product_id item) = p) (items c) = Some e"
  shows "\<exists>before after. items c = before @ e # after \<and>
           (\<forall>item\<in>set before. toString (product_id item) \<noteq> p) \<and>
           addItem rt c p (JsNumber (Finite n)) pr =
             (if 1 \<le> quantity e + n
              then Inr (pre_save (c\<lparr>items := before @ e\<lparr>quantity := min (quantity e + n) 100\<rparr> # after\<rparr>))
              else Inl ValidationError)"
proof -
  from addItem_merge [OF f, of rt n pr] obtain before after where
    s: "items c = before @ e # after" "\<forall>item\<in>set before. toString (product_id item) \<noteq> p"
       "addItem rt c p (JsNumber (Finite n)) pr =
          save (c\<lparr>items := before @ e\<lparr>quantity := min (quantity e + n) 100\<rparr> # after\<rparr>)"
    by blast
  from f have "e \<in> set (items c)" by (simp add: find_Some_P)
  with v have ve: "valid_item e" by (rule validate_member)
  have "validate (c\<lparr>items := before @ e\<lparr>quantity := min (quantity e + n) 100\<rparr> # after\<rparr>)
          \<longleftrightarrow> 1 \<le> quantity e + n"
    using validate_replace [OF v s(1)] valid_item_quantity [OF ve] by simp
  with s(3) have "addItem rt c p (JsNumber (Finite n)) pr =
             (if 1 \<le> quantity e + n
              then Inr (pre_save (c\<lparr>items := before @ e\<lparr>quantity := min (quantity e + n) 100\<rparr> # after\<rparr>))
              else Inl ValidationError)"
    by (simp add: save_def)
  with s(1,2) show ?thesis by blast
qed

text \<open>Whatever the value added, a merge that is stored assigned one quantity to one item.\<close>

lemma addItem_merge_any:
  assumes f: "find (\<lambda>item. toString (product_id item) = p) (items c) = Some e"
    and a: "addItem rt c p v pr = Inr c'"
  shows "\<exists>before after k. items c = before @ e # after \<and>
           (\<forall>item\<in>set before. toString (product_id item) \<noteq> p) \<and>
           c' = pre_save (c\<lparr>items := before @ e\<lparr>quantity := k\<rparr> # after\<rparr>) \<and>
           (\<forall>n. v = JsNumber (Finite n) \<longrightarrow> k = min (quantity e + n) 100)"
proof -
  define added where "added =
    (case v of JsNumber n \<Rightarrow> js_plus (Finite (quantity e)) n
     | JsString s \<Rightarrow> castNumber rt (numberToString rt (quantity e) @ s))"
  define clamped where "clamped = (if js_less (Finite 100) added then Finite 100 else added)"
  from f have "addItem rt c p v pr =
    (case clamped of
       Finite q \<Rightarrow>
         save (c\<lparr>items := modify_first (\<lambda>item. toString (product_id item) = p)
                 (\<lambda>item. item\<lparr>quantity := q\<rparr>) (items c)\<rparr>)
     | _ \<Rightarrow> Inl ValidationError)"
    by (simp add: addItem_def Let_def added_def clamped_def)
  with a obtain k where ck: "clamped = Finite k" and
    k1: "save (c\<lparr>items := modify_first (\<lambda>item. toString (product_id item) = p)
                 (\<lambda>item. item\<lparr>quantity := k\<rparr>) (items c)\<rparr>) = Inr c'"
    by (cases clamped) auto
  have k2: "\<forall>n. v = JsNumber (Finite n) \<longrightarrow> k = min (quantity e + n) 100"
    using ck by (auto simp: clamped_def added_def min_def split: if_splits)
  note k = k1 k2
  from modify_first_split [OF f, of "\<lambda>item. item\<lparr>quantity := k\<rparr>"]
  obtain before after where
    s: "items c = before @ e # after" "\<forall>x\<in>set before. toString (product_id x) \<noteq> p"
       "modify_first (\<lambda>item. toString (product_id item) = p)
          (\<lambda>item. item\<lparr>quantity := k\<rparr>) (items c) = before @ e\<lparr>quantity := k\<rparr> # after"
    by blast
  from k(1) s(3) have "c' = pre_save (c\<lparr>items := before @ e\<lparr>quantity := k\<rparr> # after\<rparr>)"
    by (simp add: save_Inr_iff)
  with s(1,2) k(2) show ?thesis by blast
qed

text \<open>
  A string is appended, not added: on an item of quantity 4 the string \<^verbatim>\<open>"3"\<close> makes
  \<^verbatim>\<open>"43"\<close>, and the cast of that string is what is stored.
\<close>

lemma addItem_string_quantity:
  assumes "numberToString rt 4 = ''4''" and "castNumber rt ''43'' = Finite 43"
  shows "addItem rt
           \<lparr>user = user_1, items = [\<lparr>product_id = product_a, quantity = 4, price = 10\<rparr>],
            totalItems = 4, totalPrice = 40\<rparr> product_a (JsString ''3'') 10
         = Inr \<lparr>user = user_1, items = [\<lparr>product_id = product_a, quantity = 43, price = 10\<rparr>],
                totalItems = 43, totalPrice = 430\<rparr>"
  using assms
  by (simp add: addItem_def save_def validate_def valid_item_def pre_save_def toString_def)

text \<open>The example cart: user 1 added two units of product a at price 10.\<close>

lemma example_cart_reachable:
  "reachable rt \<lparr>user = user_1, items = [\<lparr>product_id = product_a, quantity = 2, price = 10\<rparr>],
              totalItems = 2, totalPrice = 20\<rparr>"
proof -
  have "addItem rt (new_cart user_1) product_a (JsNumber (Finite 2)) 10 =
    Inr \<lparr>user = user_1, items = [\<lparr>product_id = product_a, quantity = 2, price = 10\<rparr>],
         totalItems = 2, totalPrice = 20\<rparr>"
    by (simp add: addItem_def save_def validate_def valid_item_def pre_save_def new_cart_def
        castObjectId_def is_hex_def lower_hex_def)
  then show ?thesis by (rule reachable.added [OF reachable.created])
qed

section \<open>The claims\<close>

text \<open>
  C1. Every cart reachable through \<^verbatim>\<open>addItem\<close>, \<^verbatim>\<open>updateItemQuantity\<close>, \<^verbatim>\<open>removeItem\<close> and
  \<^verbatim>\<open>clearCart\<close> has \<open>totalItems\<close> equal to the sum of its items' quantities and
  \<open>totalPrice\<close> equal to the sum of quantity times price over its items; a reachable cart
  without items has both totals 0.
\<close>

theorem totals_invariant:
  "reachable rt c \<Longrightarrow>
     totalItems c = (\<Sum>item\<leftarrow>items c. quantity item) \<and>
     totalPrice c = (\<Sum>item\<leftarrow>items c. quantity item * price item) \<and>
     (items c = [] \<longrightarrow> totalItems c = 0 \<and> totalPrice c = 0)"
proof -
  assume "reachable rt c"
  then have t: "totals_ok c" by (simp add: reachable_saved)
  then show ?thesis by (auto simp: totals_ok_def)
qed

text \<open>The invariant on the example cart: 2 items, total price 20.\<close>

theorem totals_invariant_witness:
  "reachable any_runtime
     \<lparr>user = user_1, items = [\<lparr>product_id = product_a, quantity = 2, price = 10\<rparr>],
      totalItems = 2, totalPrice = 20\<rparr> \<and>
   totalItems \<lparr>user = user_1, items = [\<lparr>product_id = product_a, quantity = 2, price = 10\<rparr>],
              totalItems = 2, totalPrice = 20\<rparr>
     = (\<Sum>item\<leftarrow>[\<lparr>product_id = product_a, quantity = 2, price = 10\<rparr>]. quantity item) \<and>
   totalPrice \<lparr>user = user_1, items = [\<lparr>product_id = product_a, quantity = 2, price = 10\<rparr>],
              totalItems = 2, totalPrice = 20\<rparr>
     = (\<Sum>item\<leftarrow>[\<lparr>product_id = product_a, quantity = 2, price = 10\<rparr>].
          quantity item * price item)"
  using totals_invariant [OF example_cart_reachable [of any_runtime]]
    example_cart_reachable [of any_runtime] by simp

text \<open>
  C2. The claim is that no cart ever holds two items for one product and that \<^verbatim>\<open>addItem\<close>
  merges into the existing item. The code does not keep it: \<^verbatim>\<open>addItem\<close> looks the item up
  by comparing the stored id's rendering, which is in lower case, with the request's string.
  When the example cart holds product a and \<^verbatim>\<open>POST /add\<close> names the same product in upper
  case, the catalog finds the product, the lookup in the cart does not, and a second item for
  product a is stored.
\<close>

theorem addToCart_other_spelling_duplicates:
  "castObjectId product_A = Some product_a \<and>
   addToCart rt [product_a \<mapsto> \<lparr>product_price = 10, stock = 10\<rparr>]
     [user_1 \<mapsto> \<lparr>user = user_1,
                 items = [\<lparr>product_id = product_a, quantity = 2, price = 10\<rparr>],
                 totalItems = 2, totalPrice = 20\<rparr>]
     user_1 (Some product_A) (Some (JsNumber (Finite 3)))
   = (Inr \<lparr>user = user_1,
           items = [\<lparr>product_id = product_a, quantity = 2, price = 10\<rparr>,
                    \<lparr>product_id = product_a, quantity = 3, price = 10\<rparr>],
           totalItems = 5, totalPrice = 50\<rparr>,
      [user_1 \<mapsto> \<lparr>user = user_1,
           items = [\<lparr>product_id = product_a, quantity = 2, price = 10\<rparr>,
                    \<lparr>product_id = product_a, quantity = 3, price = 10\<rparr>],
           totalItems = 5, totalPrice = 50\<rparr>]) \<and>
   \<not> distinct (map product_id
        [\<lparr>product_id = product_a, quantity = 2, price = 10\<rparr>,
         \<lparr>product_id = product_a, quantity = 3, price = 10\<rparr>])"
  by (simp add: addToCart_def addItem_def save_def validate_def valid_item_def pre_save_def
      castObjectId_def is_hex_def lower_hex_def toString_def to_number_def Let_def)

text \<open>
  C3, as the code has it. For a product string that matches no item of the cart, \<^verbatim>\<open>addItem\<close>
  with a quantity above 100 stores nothing: the new item is pushed with the quantity as given,
  and \<^verbatim>\<open>save()\<close> rejects the cart through the schema's validator
  \<^verbatim>\<open>max: [100, 'Quantity cannot exceed 100']\<close>. The clamp to 100 is on the merge path only.
\<close>

theorem addItem_new_above_100:
  "\<forall>item\<in>set (items c). toString (product_id item) \<noteq> p \<Longrightarrow> 100 < n \<Longrightarrow>
     addItem rt c p (JsNumber (Finite n)) pr = Inl ValidationError"
  by (auto simp: addItem_def find_None_rendering [symmetric] save_def validate_def valid_item_def
      split: option.splits)

text \<open>
  The boundary case of the specification, \<^verbatim>\<open>addItem(p, 150, price)\<close> on an empty cart, is
  an error and not a cart with one item of quantity 100.
\<close>

theorem addItem_new_150_counterexample:
  "addItem any_runtime (new_cart user_1) product_a (JsNumber (Finite 150)) 10
     = Inl ValidationError"
  by (simp add: addItem_def save_def validate_def valid_item_def new_cart_def
      castObjectId_def is_hex_def lower_hex_def)

theorem addItem_new_above_100_witness:
  "find (\<lambda>item. toString (product_id item) = product_a) (items (new_cart user_1)) = None \<and>
   (100::rat) < 101 \<and>
   addItem any_runtime (new_cart user_1) product_a (JsNumber (Finite 101)) 10
     = Inl ValidationError"
  using addItem_new_above_100 [of "new_cart user_1" product_a 101 any_runtime 10]
  by (simp add: new_cart_def)

text \<open>
  C4, as the code has it. When the stored cart of the user holds an item that the request's
  product string finds, with quantity \<open>q\<close>, \<^verbatim>\<open>POST /add\<close> with a number \<open>n\<close> compares the
  stock with \<open>n\<close> only: if \<open>n\<close> is at most the stock and \<open>q + n\<close> is at least 1, the call
  succeeds and the merged item has quantity \<open>min (q + n) 100\<close>, whatever the stock is compared
  with \<open>q + n\<close>. (With \<open>q + n < 1\<close> the save is rejected by the validator \<^verbatim>\<open>min: [1, ...]\<close>.)
\<close>

theorem addToCart_increment_only:
  assumes "castObjectId s = Some p" and "cat p = Some pd" and "cs u = Some c" and "validate c"
    and "find (\<lambda>item. toString (product_id item) = s) (items c) = Some e"
    and "n \<le> stock pd" and "1 \<le> quantity e + n"
  shows "\<exists>c'. addToCart rt cat cs u (Some s) (Some (JsNumber (Finite n))) = (Inr c', cs(u \<mapsto> c')) \<and>
           find (\<lambda>item. toString (product_id item) = s) (items c')
             = Some (e\<lparr>quantity := min (quantity e + n) 100\<rparr>) \<and>
           length (items c') = length (items c)"
proof -
  from addItem_merge_result [OF assms(4,5), of rt n "product_price pd"] assms(7)
  obtain before after where
    s: "items c = before @ e # after" "\<forall>item\<in>set before. toString (product_id item) \<noteq> s"
       "addItem rt c s (JsNumber (Finite n)) (product_price pd) =
          Inr (pre_save (c\<lparr>items := before @ e\<lparr>quantity := min (quantity e + n) 100\<rparr> # after\<rparr>))"
    by auto
  let ?c' = "pre_save (c\<lparr>items := before @ e\<lparr>quantity := min (quantity e + n) 100\<rparr> # after\<rparr>)"
  from assms(5) have "toString (product_id e) = s" using find_Some_P by fastforce
  with s(2) have "find (\<lambda>item. toString (product_id item) = s) (items ?c')
      = Some (e\<lparr>quantity := min (quantity e + n) 100\<rparr>)"
    by (simp add: find_append_hit)
  moreover have "length (items ?c') = length (items c)" using s(1) by simp
  moreover from assms(1) have "s \<noteq> []" by (rule castObjectId_nonempty)
  with assms(1,2,3,6) s(3) have
    "addToCart rt cat cs u (Some s) (Some (JsNumber (Finite n))) = (Inr ?c', cs(u \<mapsto> ?c'))"
    by (simp add: addToCart_def to_number_def)
  ultimately show ?thesis by blast
qed

text \<open>
  With 4 units in the cart, a stock of 10 and a requested quantity of -4, the stock check
  passes and the call fails: the cart is stored as it was.
\<close>

theorem addToCart_increment_counterexample:
  "addToCart any_runtime [product_a \<mapsto> \<lparr>product_price = 10, stock = 10\<rparr>]
     [user_1 \<mapsto> \<lparr>user = user_1,
                 items = [\<lparr>product_id = product_a, quantity = 4, price = 10\<rparr>],
                 totalItems = 4, totalPrice = 40\<rparr>]
     user_1 (Some product_a) (Some (JsNumber (Finite (- 4))))
   = (Inl (ServerError ValidationError),
      [user_1 \<mapsto> \<lparr>user = user_1,
                 items = [\<lparr>product_id = product_a, quantity = 4, price = 10\<rparr>],
                 totalItems = 4, totalPrice = 40\<rparr>])"
  by (simp add: addToCart_def addItem_def save_def validate_def valid_item_def
      castObjectId_def is_hex_def lower_hex_def toString_def to_number_def Let_def)

text \<open>
  Scenario B of the specification: 4 units in the cart, 3 requested, stock 10; and the same
  request with 9 units in the cart, where the merged 12 exceeds the stock.
\<close>

theorem addToCart_increment_only_witness:
  "castObjectId product_a = Some product_a \<and>
   [product_a \<mapsto> \<lparr>product_price = 12, stock = 10\<rparr>] product_a
     = Some \<lparr>product_price = 12, stock = 10\<rparr> \<and>
   validate \<lparr>user = user_1, items = [\<lparr>product_id = product_a, quantity = 4, price = 10\<rparr>],
             totalItems = 4, totalPrice = 40\<rparr> \<and>
   find (\<lambda>item. toString (product_id item) = product_a)
     (items \<lparr>user = user_1, items = [\<lparr>product_id = product_a, quantity = 4, price = 10\<rparr>],
             totalItems = 4, totalPrice = 40\<rparr>)
     = Some \<lparr>product_id = product_a, quantity = 4, price = 10\<rparr> \<and>
   (3::rat) \<le> stock \<lparr>product_price = 12, stock = 10\<rparr> \<and>
   1 \<le> quantity \<lparr>product_id = product_a, quantity = 4, price = 10\<rparr> + 3 \<and>
   (\<exists>c'. addToCart any_runtime [product_a \<mapsto> \<lparr>product_price = 12, stock = 10\<rparr>]
           [user_1 \<mapsto> \<lparr>user = user_1,
                       items = [\<lparr>product_id = product_a, quantity = 4, price = 10\<rparr>],
                       totalItems = 4, totalPrice = 40\<rparr>]
           user_1 (Some product_a) (Some (JsNumber (Finite 3)))
         = (Inr c', [user_1 \<mapsto> c']) \<and>
         find (\<lambda>item. toString (product_id item) = product_a) (items c')
           = Some \<lparr>product_id = product_a, quantity = 7, price = 10\<rparr>) \<and>
   addToCart any_runtime [product_a \<mapsto> \<lparr>product_price = 12, stock = 10\<rparr>]
     [user_1 \<mapsto> \<lparr>user = user_1,
                 items = [\<lparr>product_id = product_a, quantity = 4, price = 10\<rparr>],
                 totalItems = 4, totalPrice = 40\<rparr>]
     user_1 (Some product_a) (Some (JsNumber (Finite 3)))
     = (Inr \<lparr>user = user_1,
             items = [\<lparr>product_id = product_a, quantity = 7, price = 10\<rparr>],
             totalItems = 7, totalPrice = 70\<rparr>,
        [user_1 \<mapsto> \<lparr>user = user_1,
             items = [\<lparr>product_id = product_a, quantity = 7, price = 10\<rparr>],
             totalItems = 7, totalPrice = 70\<rparr>]) \<and>
   (\<exists>c'. addToCart any_runtime [product_a \<mapsto> \<lparr>product_price = 12, stock = 10\<rparr>]
           [user_1 \<mapsto> \<lparr>user = user_1,
                       items = [\<lparr>product_id = product_a, quantity = 9, price = 10\<rparr>],
                       totalItems = 9, totalPrice = 90\<rparr>]
           user_1 (Some product_a) (Some (JsNumber (Finite 3)))
         = (Inr c', [user_1 \<mapsto> c']) \<and>
         find (\<lambda>item. toString (product_id item) = product_a) (items c')
           = Some \<lparr>product_id = product_a, quantity = 12, price = 10\<rparr>)"
proof -
  have h: "castObjectId product_a = Some product_a"
    "[product_a \<mapsto> \<lparr>product_price = 12, stock = 10\<rparr>] product_a
       = Some \<lparr>product_price = 12, stock = 10\<rparr>"
    "validate \<lparr>user = user_1, items = [\<lparr>product_id = product_a, quantity = 4, price = 10\<rparr>],
             totalItems = 4, totalPrice = 40\<rparr>"
    "find (\<lambda>item. toString (product_id item) = product_a)
      (items \<lparr>user = user_1, items = [\<lparr>product_id = product_a, quantity = 4, price = 10\<rparr>],
             totalItems = 4, totalPrice = 40\<rparr>)
      = Some \<lparr>product_id = product_a, quantity = 4, price = 10\<rparr>"
    "(3::rat) \<le> stock \<lparr>product_price = 12, stock = 10\<rparr>"
    "1 \<le> quantity \<lparr>product_id = product_a, quantity = 4, price = 10\<rparr> + 3"
    by (simp_all add: validate_def valid_item_def castObjectId_def is_hex_def lower_hex_def
        toString_def)
  have g: "validate \<lparr>user = user_1,
             items = [\<lparr>product_id = product_a, quantity = 9, price = 10\<rparr>],
             totalItems = 9, totalPrice = 90\<rparr>"
    "find (\<lambda>item. toString (product_id item) = product_a)
      (items \<lparr>user = user_1, items = [\<lparr>product_id = product_a, quantity = 9, price = 10\<rparr>],
             totalItems = 9, totalPrice = 90\<rparr>)
      = Some \<lparr>product_id = product_a, quantity = 9, price = 10\<rparr>"
    by (simp_all add: validate_def valid_item_def toString_def)
  have b: "addToCart any_runtime [product_a \<mapsto> \<lparr>product_price = 12, stock = 10\<rparr>]
     [user_1 \<mapsto> \<lparr>user = user_1,
                 items = [\<lparr>product_id = product_a, quantity = 4, price = 10\<rparr>],
                 totalItems = 4, totalPrice = 40\<rparr>]
     user_1 (Some product_a) (Some (JsNumber (Finite 3)))
     = (Inr \<lparr>user = user_1,
             items = [\<lparr>product_id = product_a, quantity = 7, price = 10\<rparr>],
             totalItems = 7, totalPrice = 70\<rparr>,
        [user_1 \<mapsto> \<lparr>user = user_1,
             items = [\<lparr>product_id = product_a, quantity = 7, price = 10\<rparr>],
             totalItems = 7, totalPrice = 70\<rparr>])"
    by (simp add: addToCart_def addItem_def save_def validate_def valid_item_def pre_save_def
        castObjectId_def is_hex_def lower_hex_def toString_def to_number_def Let_def)
  have t1: "\<exists>c'. addToCart any_runtime [product_a \<mapsto> \<lparr>product_price = 12, stock = 10\<rparr>]
           [user_1 \<mapsto> \<lparr>user = user_1,
                       items = [\<lparr>product_id = product_a, quantity = 4, price = 10\<rparr>],
                       totalItems = 4, totalPrice = 40\<rparr>]
           user_1 (Some product_a) (Some (JsNumber (Finite 3)))
         = (Inr c', [user_1 \<mapsto> c']) \<and>
         find (\<lambda>item. toString (product_id item) = product_a) (items c')
           = Some \<lparr>product_id = product_a, quantity = 7, price = 10\<rparr>"
    using addToCart_increment_only [where rt = any_runtime and s = product_a and p = product_a
      and cat = "[product_a \<mapsto> \<lparr>product_price = 12, stock = 10\<rparr>]"
      and pd = "\<lparr>product_price = 12, stock = 10\<rparr>" and u = user_1 and n = 3
      and cs = "[user_1 \<mapsto> \<lparr>user = user_1,
                       items = [\<lparr>product_id = product_a, quantity = 4, price = 10\<rparr>],
                       totalItems = 4, totalPrice = 40\<rparr>]"
      and c = "\<lparr>user = user_1,
                       items = [\<lparr>product_id = product_a, quantity = 4, price = 10\<rparr>],
                       totalItems = 4, totalPrice = 40\<rparr>"
      and e = "\<lparr>product_id = product_a, quantity = 4, price = 10\<rparr>"] h
    by auto
  have t2: "\<exists>c'. addToCart any_runtime [product_a \<mapsto> \<lparr>product_price = 12, stock = 10\<rparr>]
           [user_1 \<mapsto> \<lparr>user = user_1,
                       items = [\<lparr>product_id = product_a, quantity = 9, price = 10\<rparr>],
                       totalItems = 9, totalPrice = 90\<rparr>]
           user_1 (Some product_a) (Some (JsNumber (Finite 3)))
         = (Inr c', [user_1 \<mapsto> c']) \<and>
         find (\<lambda>item. toString (product_id item) = product_a) (items c')
           = Some \<lparr>product_id = product_a, quantity = 12, price = 10\<rparr>"
    using addToCart_increment_only [where rt = any_runtime and s = product_a and p = product_a
      and cat = "[product_a \<mapsto> \<lparr>product_price = 12, stock = 10\<rparr>]"
      and pd = "\<lparr>product_price = 12, stock = 10\<rparr>" and u = user_1 and n = 3
      and cs = "[user_1 \<mapsto> \<lparr>user = user_1,
                       items = [\<lparr>product_id = product_a, quantity = 9, price = 10\<rparr>],
                       totalItems = 9, totalPrice = 90\<rparr>]"
      and c = "\<lparr>user = user_1,
                       items = [\<lparr>product_id = product_a, quantity = 9, price = 10\<rparr>],
                       totalItems = 9, totalPrice = 90\<rparr>"
      and e = "\<lparr>product_id = product_a, quantity = 9, price = 10\<rparr>"] h g
    by auto
  from h b t1 t2 show ?thesis by blast
qed

text \<open>
  C5, as the code has it. \<^verbatim>\<open>updateItemQuantity(p, q)\<close> throws
  \<^verbatim>\<open>Error('Item not found in cart')\<close> whenever the product string finds no item in the cart,
  for every quantity, zero and negative ones too: the removal through this method is not
  idempotent. When the string finds an item, a number \<open>q \<le> 0\<close> removes it (every such \<open>q\<close>
  behaves as 0), a number \<open>q \<ge> 1\<close> sets its quantity to \<open>min q 100\<close>, and a number between
  0 and 1 is assigned and then rejected by the validator \<^verbatim>\<open>min: [1, ...]\<close> of \<^verbatim>\<open>save()\<close>.
\<close>

theorem updateItemQuantity_cases:
  "((\<forall>item\<in>set (items c). toString (product_id item) \<noteq> p) \<longrightarrow>
      updateItemQuantity rt c p v = Inl ItemNotFound) \<and>
   (validate c \<and> find (\<lambda>item. toString (product_id item) = p) (items c) = Some e \<and> q \<le> 0 \<longrightarrow>
      (\<exists>c'. updateItemQuantity rt c p (JsNumber (Finite q)) = Inr c' \<and>
         (\<forall>item\<in>set (items c'). toString (product_id item) \<noteq> p) \<and>
         items c' = filter (\<lambda>item. toString (product_id item) \<noteq> p) (items c)) \<and>
      updateItemQuantity rt c p (JsNumber (Finite q))
        = updateItemQuantity rt c p (JsNumber (Finite 0))) \<and>
   (validate c \<and> find (\<lambda>item. toString (product_id item) = p) (items c) = Some e \<and> 1 \<le> q \<longrightarrow>
      (\<exists>c'. updateItemQuantity rt c p (JsNumber (Finite q)) = Inr c' \<and>
         find (\<lambda>item. toString (product_id item) = p) (items c')
           = Some (e\<lparr>quantity := min q 100\<rparr>) \<and>
         length (items c') = length (items c))) \<and>
   (find (\<lambda>item. toString (product_id item) = p) (items c) = Some e \<and> 0 < q \<and> q < 1 \<longrightarrow>
      updateItemQuantity rt c p (JsNumber (Finite q)) = Inl ValidationError)"
proof -
  have absent: "updateItemQuantity rt c p v = Inl ItemNotFound"
    if "\<forall>item\<in>set (items c). toString (product_id item) \<noteq> p"
    using that by (simp add: updateItemQuantity_def find_None_rendering [symmetric])
  have remove: "(\<exists>c'. updateItemQuantity rt c p (JsNumber (Finite q)) = Inr c' \<and>
         (\<forall>item\<in>set (items c'). toString (product_id item) \<noteq> p) \<and>
         items c' = filter (\<lambda>item. toString (product_id item) \<noteq> p) (items c)) \<and>
      updateItemQuantity rt c p (JsNumber (Finite q))
        = updateItemQuantity rt c p (JsNumber (Finite 0))"
    if "validate c" "find (\<lambda>item. toString (product_id item) = p) (items c) = Some e" "q \<le> 0"
  proof -
    let ?c' = "pre_save (c\<lparr>items := filter (\<lambda>item. toString (product_id item) \<noteq> p) (items c)\<rparr>)"
    from that have "updateItemQuantity rt c p (JsNumber (Finite q)) = Inr ?c'"
      "updateItemQuantity rt c p (JsNumber (Finite 0)) = Inr ?c'"
      by (simp_all add: updateItemQuantity_def save_def validate_filter to_number_def js_le_def)
    moreover have "\<forall>item\<in>set (items ?c'). toString (product_id item) \<noteq> p" by simp
    moreover have "items ?c' = filter (\<lambda>item. toString (product_id item) \<noteq> p) (items c)"
      by simp
    ultimately show ?thesis by metis
  qed
  have assigns: "\<exists>before after. items c = before @ e # after \<and>
      (\<forall>item\<in>set before. toString (product_id item) \<noteq> p) \<and>
      updateItemQuantity rt c p (JsNumber (Finite q))
        = save (c\<lparr>items := before @ e\<lparr>quantity := min q 100\<rparr> # after\<rparr>)"
    if h: "find (\<lambda>item. toString (product_id item) = p) (items c) = Some e" "0 < q"
  proof -
    from modify_first_split [OF h(1), of "\<lambda>item. item\<lparr>quantity := min q 100\<rparr>"]
    obtain before after where
      s: "items c = before @ e # after" "\<forall>item\<in>set before. toString (product_id item) \<noteq> p"
         "modify_first (\<lambda>item. toString (product_id item) = p)
            (\<lambda>item. item\<lparr>quantity := min q 100\<rparr>) (items c)
            = before @ e\<lparr>quantity := min q 100\<rparr> # after"
      by blast
    from h have "updateItemQuantity rt c p (JsNumber (Finite q))
        = save (c\<lparr>items := modify_first (\<lambda>item. toString (product_id item) = p)
            (\<lambda>item. item\<lparr>quantity := min q 100\<rparr>) (items c)\<rparr>)"
      by (auto simp: updateItemQuantity_def to_number_def js_le_def js_min_def min_def)
    with s show ?thesis by auto
  qed
  have assign: "\<exists>c'. updateItemQuantity rt c p (JsNumber (Finite q)) = Inr c' \<and>
         find (\<lambda>item. toString (product_id item) = p) (items c')
           = Some (e\<lparr>quantity := min q 100\<rparr>) \<and>
         length (items c') = length (items c)"
    if h: "validate c" "find (\<lambda>item. toString (product_id item) = p) (items c) = Some e" "1 \<le> q"
  proof -
    from h(3) have "0 < q" by simp
    from assigns [OF h(2) this] obtain before after where
      s: "items c = before @ e # after" "\<forall>item\<in>set before. toString (product_id item) \<noteq> p"
         "updateItemQuantity rt c p (JsNumber (Finite q))
            = save (c\<lparr>items := before @ e\<lparr>quantity := min q 100\<rparr> # after\<rparr>)"
      by blast
    let ?d = "c\<lparr>items := before @ e\<lparr>quantity := min q 100\<rparr> # after\<rparr>"
    from h(2) have pe: "toString (product_id e) = p" "e \<in> set (items c)"
      using find_Some_P by fastforce+
    from h(1) pe(2) have "valid_item e" by (rule validate_member)
    with h(3) have "valid_item (e\<lparr>quantity := min q 100\<rparr>)" by (simp add: valid_item_quantity)
    with h(1) s(1) have "validate ?d" by (simp add: validate_replace)
    with s(3) have "updateItemQuantity rt c p (JsNumber (Finite q)) = Inr (pre_save ?d)"
      by (simp add: save_def)
    moreover have "find (\<lambda>item. toString (product_id item) = p) (items (pre_save ?d))
        = Some (e\<lparr>quantity := min q 100\<rparr>)"
      using s(2) pe(1) by (simp add: find_append_hit)
    moreover have "length (items (pre_save ?d)) = length (items c)" using s(1) by simp
    ultimately show ?thesis by blast
  qed
  have fraction: "updateItemQuantity rt c p (JsNumber (Finite q)) = Inl ValidationError"
    if h: "find (\<lambda>item. toString (product_id item) = p) (items c) = Some e" "0 < q" "q < 1"
  proof -
    from assigns [OF h(1,2)] obtain before after where
      s: "updateItemQuantity rt c p (JsNumber (Finite q))
            = save (c\<lparr>items := before @ e\<lparr>quantity := min q 100\<rparr> # after\<rparr>)"
      by blast
    from h(3) have "\<not> valid_item (e\<lparr>quantity := min q 100\<rparr>)" by (simp add: valid_item_def)
    then have "\<not> validate (c\<lparr>items := before @ e\<lparr>quantity := min q 100\<rparr> # after\<rparr>)"
      by (simp add: validate_def)
    with s show ?thesis by (simp add: save_def)
  qed
  from absent remove assign fraction show ?thesis by blast
qed

text \<open>Updating a product to quantity 0 in an empty cart is an error.\<close>

theorem updateItemQuantity_absent_counterexample:
  "updateItemQuantity any_runtime (new_cart user_1) product_a (JsNumber (Finite 0))
     = Inl ItemNotFound"
  by (simp add: updateItemQuantity_def new_cart_def)

text \<open>
  On a cart with 4 units of product a: product b is not found, the quantities -1 and 0 do
  the same and empty the cart, the quantity 150 is stored as 100, and the quantity 1/2 is
  rejected.
\<close>

theorem updateItemQuantity_cases_witness:
  "find (\<lambda>item. toString (product_id item) = product_b) (items
      \<lparr>user = user_1, items = [\<lparr>product_id = product_a, quantity = 4, price = 10\<rparr>],
       totalItems = 4, totalPrice = 40\<rparr>) = None \<and>
   updateItemQuantity any_runtime
      \<lparr>user = user_1, items = [\<lparr>product_id = product_a, quantity = 4, price = 10\<rparr>],
       totalItems = 4, totalPrice = 40\<rparr> product_b (JsNumber (Finite 0)) = Inl ItemNotFound \<and>
   validate \<lparr>user = user_1, items = [\<lparr>product_id = product_a, quantity = 4, price = 10\<rparr>],
             totalItems = 4, totalPrice = 40\<rparr> \<and>
   find (\<lambda>item. toString (product_id item) = product_a)
     (items \<lparr>user = user_1, items = [\<lparr>product_id = product_a, quantity = 4, price = 10\<rparr>],
             totalItems = 4, totalPrice = 40\<rparr>)
     = Some \<lparr>product_id = product_a, quantity = 4, price = 10\<rparr> \<and>
   updateItemQuantity any_runtime
      \<lparr>user = user_1, items = [\<lparr>product_id = product_a, quantity = 4, price = 10\<rparr>],
       totalItems = 4, totalPrice = 40\<rparr> product_a (JsNumber (Finite (- 1)))
     = updateItemQuantity any_runtime
      \<lparr>user = user_1, items = [\<lparr>product_id = product_a, quantity = 4, price = 10\<rparr>],
       totalItems = 4, totalPrice = 40\<rparr> product_a (JsNumber (Finite 0)) \<and>
   (\<exists>c'. updateItemQuantity any_runtime
      \<lparr>user = user_1, items = [\<lparr>product_id = product_a, quantity = 4, price = 10\<rparr>],
       totalItems = 4, totalPrice = 40\<rparr> product_a (JsNumber (Finite 0)) = Inr c' \<and>
      items c' = []) \<and>
   (\<exists>c'. updateItemQuantity any_runtime
      \<lparr>user = user_1, items = [\<lparr>product_id = product_a, quantity = 4, price = 10\<rparr>],
       totalItems = 4, totalPrice = 40\<rparr> product_a (JsNumber (Finite 150)) = Inr c' \<and>
      find (\<lambda>item. toString (product_id item) = product_a) (items c')
        = Some \<lparr>product_id = product_a, quantity = 100, price = 10\<rparr>) \<and>
   updateItemQuantity any_runtime
      \<lparr>user = user_1, items = [\<lparr>product_id = product_a, quantity = 4, price = 10\<rparr>],
       totalItems = 4, totalPrice = 40\<rparr> product_a (JsNumber (Finite (1 / 2)))
     = Inl ValidationError"
proof -
  let ?c = "\<lparr>user = user_1, items = [\<lparr>product_id = product_a, quantity = 4, price = 10\<rparr>],
       totalItems = 4, totalPrice = 40\<rparr>"
  let ?e = "\<lparr>product_id = product_a, quantity = 4, price = 10\<rparr>"
  have h: "\<forall>item\<in>set (items ?c). toString (product_id item) \<noteq> product_b"
    "validate ?c"
    "find (\<lambda>item. toString (product_id item) = product_a) (items ?c) = Some ?e"
    by (simp_all add: validate_def valid_item_def toString_def)
  have n: "(- 1::rat) \<le> 0" "(0::rat) \<le> 0" "(1::rat) \<le> 150" "(0::rat) < 1 / 2" "(1 / 2::rat) < 1"
    by simp_all
  from h n
    updateItemQuantity_cases [where rt = any_runtime and p = product_b
      and v = "JsNumber (Finite 0)" and c = ?c]
    updateItemQuantity_cases [where rt = any_runtime and p = product_a and q = "- 1"
      and c = ?c and e = ?e]
    updateItemQuantity_cases [where rt = any_runtime and p = product_a and q = 0
      and c = ?c and e = ?e]
    updateItemQuantity_cases [where rt = any_runtime and p = product_a and q = 150
      and c = ?c and e = ?e]
    updateItemQuantity_cases [where rt = any_runtime and p = product_a and q = "1 / 2"
      and c = ?c and e = ?e]
  show ?thesis by (auto simp: toString_def)
qed

text \<open>
  C6. \<^verbatim>\<open>POST /add\<close> with a string that names a product id answers \<^verbatim>\<open>Product not found\<close>
  (404) when the catalog has no product with that id, and
  \<^verbatim>\<open>Only n items available in stock\<close> (400) when the product's stock is below the requested
  quantity (1 when the body gives none); in both cases the stored carts are what they were.
\<close>

theorem addToCart_failures:
  "castObjectId s = Some p \<Longrightarrow>
   (cat p = None \<longrightarrow> addToCart rt cat cs u (Some s) q = (Inl ProductNotFound, cs)) \<and>
   (cat p = Some pd \<and>
    js_less (Finite (stock pd))
      (to_number rt (case q of None \<Rightarrow> JsNumber (Finite 1) | Some v \<Rightarrow> v)) \<longrightarrow>
      addToCart rt cat cs u (Some s) q = (Inl (InsufficientStock (stock pd)), cs)) \<and>
   (cat p = Some pd \<and> stock pd < (case n of None \<Rightarrow> 1 | Some k \<Rightarrow> k) \<longrightarrow>
      addToCart rt cat cs u (Some s) (map_option (\<lambda>k. JsNumber (Finite k)) n)
        = (Inl (InsufficientStock (stock pd)), cs))"
  using castObjectId_nonempty [of s p]
  by (cases n) (simp_all add: addToCart_def to_number_def)

text \<open>
  Scenario C of the specification: product b has stock 2 and 5 are requested; product a is
  not in the catalog.
\<close>

theorem addToCart_failures_witness:
  "castObjectId product_a = Some product_a \<and>
   [product_b \<mapsto> \<lparr>product_price = 5, stock = 2\<rparr>] product_a = None \<and>
   addToCart any_runtime [product_b \<mapsto> \<lparr>product_price = 5, stock = 2\<rparr>]
     [user_1 \<mapsto> \<lparr>user = user_1,
                 items = [\<lparr>product_id = product_a, quantity = 2, price = 10\<rparr>],
                 totalItems = 2, totalPrice = 20\<rparr>]
     user_1 (Some product_a) (Some (JsNumber (Finite 1)))
     = (Inl ProductNotFound,
        [user_1 \<mapsto> \<lparr>user = user_1,
                 items = [\<lparr>product_id = product_a, quantity = 2, price = 10\<rparr>],
                 totalItems = 2, totalPrice = 20\<rparr>]) \<and>
   castObjectId product_b = Some product_b \<and>
   [product_b \<mapsto> \<lparr>product_price = 5, stock = 2\<rparr>] product_b
     = Some \<lparr>product_price = 5, stock = 2\<rparr> \<and>
   js_less (Finite (stock \<lparr>product_price = 5, stock = 2\<rparr>))
     (to_number any_runtime (JsNumber (Finite 5))) \<and>
   addToCart any_runtime [product_b \<mapsto> \<lparr>product_price = 5, stock = 2\<rparr>]
     [user_1 \<mapsto> \<lparr>user = user_1,
                 items = [\<lparr>product_id = product_a, quantity = 2, price = 10\<rparr>],
                 totalItems = 2, totalPrice = 20\<rparr>]
     user_1 (Some product_b) (Some (JsNumber (Finite 5)))
     = (Inl (InsufficientStock 2),
        [user_1 \<mapsto> \<lparr>user = user_1,
                 items = [\<lparr>product_id = product_a, quantity = 2, price = 10\<rparr>],
                 totalItems = 2, totalPrice = 20\<rparr>])"
proof -
  let ?cs = "[user_1 \<mapsto> \<lparr>user = user_1,
                 items = [\<lparr>product_id = product_a, quantity = 2, price = 10\<rparr>],
                 totalItems = 2, totalPrice = 20\<rparr>]"
  have h: "castObjectId product_a = Some product_a" "castObjectId product_b = Some product_b"
    by (simp_all add: castObjectId_def is_hex_def lower_hex_def)
  from h
    addToCart_failures [OF h(1), where cat = "[product_b \<mapsto> \<lparr>product_price = 5, stock = 2\<rparr>]"
      and rt = any_runtime and cs = ?cs and u = user_1 and q = "Some (JsNumber (Finite 1))"]
    addToCart_failures [OF h(2), where cat = "[product_b \<mapsto> \<lparr>product_price = 5, stock = 2\<rparr>]"
      and pd = "\<lparr>product_price = 5, stock = 2\<rparr>"
      and rt = any_runtime and cs = ?cs and u = user_1 and q = "Some (JsNumber (Finite 5))"]
  show ?thesis by (simp add: to_number_def)
qed



text \<open>
  C8. On a reachable cart in which the product string finds no item, \<^verbatim>\<open>removeItem(p)\<close> is
  not an error and returns the cart as it was, items and totals; so does a second call on
  what the first returned.
\<close>

theorem removeItem_absent:
  assumes "reachable rt c" and "\<forall>item\<in>set (items c). toString (product_id item) \<noteq> p"
  shows "removeItem c p = Inr c \<and>
         (case removeItem c p of Inl e \<Rightarrow> False | Inr c' \<Rightarrow> removeItem c' p = Inr c)"
proof -
  from assms(1) have "totals_ok c" "validate c" by (simp_all add: reachable_saved)
  then have "save c = Inr c" by (simp add: save_def pre_save_fixpoint)
  with assms(2) have "removeItem c p = Inr c" by (simp add: removeItem_def filter_absent)
  then show ?thesis by simp
qed

text \<open>Removing product b from the example cart, which holds product a only.\<close>

theorem removeItem_absent_witness:
  "reachable any_runtime
     \<lparr>user = user_1, items = [\<lparr>product_id = product_a, quantity = 2, price = 10\<rparr>],
      totalItems = 2, totalPrice = 20\<rparr> \<and>
   find (\<lambda>item. toString (product_id item) = product_b) (items
     \<lparr>user = user_1, items = [\<lparr>product_id = product_a, quantity = 2, price = 10\<rparr>],
      totalItems = 2, totalPrice = 20\<rparr>) = None \<and>
   removeItem \<lparr>user = user_1, items = [\<lparr>product_id = product_a, quantity = 2, price = 10\<rparr>],
               totalItems = 2, totalPrice = 20\<rparr> product_b
     = Inr \<lparr>user = user_1, items = [\<lparr>product_id = product_a, quantity = 2, price = 10\<rparr>],
            totalItems = 2, totalPrice = 20\<rparr>"
proof -
  have n: "\<forall>item\<in>set (items
     \<lparr>user = user_1, items = [\<lparr>product_id = product_a, quantity = 2, price = 10\<rparr>],
      totalItems = 2, totalPrice = 20\<rparr>). toString (product_id item) \<noteq> product_b"
    by (simp add: toString_def)
  from removeItem_absent [OF example_cart_reachable [of any_runtime] n]
    example_cart_reachable [of any_runtime] n
  show ?thesis by simp
qed

text \<open>
  C9. When the product string of \<^verbatim>\<open>addItem(p, n, price)\<close> finds an item and the save
  succeeds, the stored items are the old ones with that one item's quantity replaced (by
  \<open>min (q + n) 100\<close> when \<open>n\<close> is a number): its price stays what it was (the \<open>price\<close> argument
  is not used), the items before and after it are untouched, and the cart's user is the same.
\<close>

theorem addItem_merge_frame:
  assumes "find (\<lambda>item. toString (product_id item) = p) (items c) = Some e"
    and "addItem rt c p v pr = Inr c'"
  shows "\<exists>before after k.
           items c = before @ e # after \<and>
           (\<forall>item\<in>set before. toString (product_id item) \<noteq> p) \<and>
           items c' = before @ e\<lparr>quantity := k\<rparr> # after \<and>
           (\<forall>n. v = JsNumber (Finite n) \<longrightarrow> k = min (quantity e + n) 100) \<and>
           price (e\<lparr>quantity := k\<rparr>) = price e \<and>
           map price (items c') = map price (items c) \<and>
           map product_id (items c') = map product_id (items c) \<and>
           user c' = user c"
proof -
  from addItem_merge_any [OF assms] obtain before after k where
    s: "items c = before @ e # after"
       "\<forall>item\<in>set before. toString (product_id item) \<noteq> p"
       "c' = pre_save (c\<lparr>items := before @ e\<lparr>quantity := k\<rparr> # after\<rparr>)"
       "\<forall>n. v = JsNumber (Finite n) \<longrightarrow> k = min (quantity e + n) 100"
    by blast
  from s(3) have "items c' = before @ e\<lparr>quantity := k\<rparr> # after" and "user c' = user c"
    by simp_all
  with s(1,2,4) show ?thesis by auto
qed

text \<open>
  A cart with 4 units of product a bought at 10 and one unit of product b: adding 3 units of
  product a at the catalog's new price 12 leaves the prices 10 and 5.
\<close>

theorem addItem_merge_frame_witness:
  "find (\<lambda>item. toString (product_id item) = product_a)
     (items \<lparr>user = user_1, items = [\<lparr>product_id = product_a, quantity = 4, price = 10\<rparr>,
                                     \<lparr>product_id = product_b, quantity = 1, price = 5\<rparr>],
             totalItems = 5, totalPrice = 45\<rparr>)
     = Some \<lparr>product_id = product_a, quantity = 4, price = 10\<rparr> \<and>
   addItem any_runtime
     \<lparr>user = user_1, items = [\<lparr>product_id = product_a, quantity = 4, price = 10\<rparr>,
                               \<lparr>product_id = product_b, quantity = 1, price = 5\<rparr>],
      totalItems = 5, totalPrice = 45\<rparr> product_a (JsNumber (Finite 3)) 12
     = Inr \<lparr>user = user_1, items = [\<lparr>product_id = product_a, quantity = 7, price = 10\<rparr>,
                                     \<lparr>product_id = product_b, quantity = 1, price = 5\<rparr>],
            totalItems = 8, totalPrice = 75\<rparr> \<and>
   map price (items
     \<lparr>user = user_1, items = [\<lparr>product_id = product_a, quantity = 7, price = 10\<rparr>,
                               \<lparr>product_id = product_b, quantity = 1, price = 5\<rparr>],
      totalItems = 8, totalPrice = 75\<rparr>) = [10, 5]"
proof -
  have f: "find (\<lambda>item. toString (product_id item) = product_a)
     (items \<lparr>user = user_1, items = [\<lparr>product_id = product_a, quantity = 4, price = 10\<rparr>,
                                     \<lparr>product_id = product_b, quantity = 1, price = 5\<rparr>],
             totalItems = 5, totalPrice = 45\<rparr>)
     = Some \<lparr>product_id = product_a, quantity = 4, price = 10\<rparr>"
    by (simp add: toString_def)
  have a: "addItem any_runtime
     \<lparr>user = user_1, items = [\<lparr>product_id = product_a, quantity = 4, price = 10\<rparr>,
                               \<lparr>product_id = product_b, quantity = 1, price = 5\<rparr>],
      totalItems = 5, totalPrice = 45\<rparr> product_a (JsNumber (Finite 3)) 12
     = Inr \<lparr>user = user_1, items = [\<lparr>product_id = product_a, quantity = 7, price = 10\<rparr>,
                                     \<lparr>product_id = product_b, quantity = 1, price = 5\<rparr>],
            totalItems = 8, totalPrice = 75\<rparr>"
    by (simp add: addItem_def save_def validate_def valid_item_def pre_save_def toString_def)
  from addItem_merge_frame [OF f a] f a show ?thesis by simp
qed




end
